theory Spec2Isabelle
  imports Main "HOL-Library.Sublist"
begin

section \<open>Data model\<close>

text \<open>
  A location is a JavaScript string. The program itself can also produce the value
  \<^verbatim>\<open>undefined\<close> where a location is expected (destructuring the result of
  \<^verbatim>\<open>split\<close> when it has a single component, or indexing an empty array), so the
  model keeps that value apart from every string. On these two kinds of value the
  comparisons \<^verbatim>\<open>!=\<close> and \<^verbatim>\<open>includes\<close> of the source agree with HOL equality.
  Strings are lists of characters; the separator is the ASCII hyphen.
\<close>

datatype location = Undefined | Str string

text \<open>Using a value as a property name converts it to a string.\<close>

fun toKey :: "location \<Rightarrow> string" where
  "toKey Undefined = ''undefined''"
| "toKey (Str s) = s"

text \<open>
  The graph is an object without prototype whose properties are arrays: a partial map
  from property names to neighbour lists.
\<close>

type_synonym graph = "string \<rightharpoonup> location list"

record parcel =
  place :: location
  address :: location

record VillageState =
  place :: location
  parcels :: "parcel list"

datatype error = TypeError

section \<open>buildGraph\<close>

text \<open>\<^verbatim>\<open>r.split("-")\<close>: the components between hyphens, at least one.\<close>

fun split :: "string \<Rightarrow> string list" where
  "split [] = [] # []"
| "split (c # cs) =
     (if c = CHR ''-'' then [] # split cs
      else (case split cs of w # ws \<Rightarrow> (c # w) # ws | [] \<Rightarrow> [c] # []))"

text \<open>
  The pattern \<^verbatim>\<open>[from, to]\<close> binds the first two elements of the array; an element that
  is not there is \<^verbatim>\<open>undefined\<close>, further elements are dropped.
\<close>

fun element :: "string list \<Rightarrow> nat \<Rightarrow> location" where
  "element [] i = Undefined"
| "element (c # cs) 0 = Str c"
| "element (c # cs) (Suc i) = element cs i"

definition destructure :: "string list \<Rightarrow> location \<times> location" where
  "destructure cs = (element cs 0, element cs 1)"

definition addEdge :: "graph \<Rightarrow> location \<Rightarrow> location \<Rightarrow> graph" where
  "addEdge graph from to =
     (case graph (toKey from) of
        None \<Rightarrow> graph(toKey from \<mapsto> [to])
      | Some ns \<Rightarrow> graph(toKey from \<mapsto> ns @ [to]))"

fun addEdges :: "graph \<Rightarrow> string list \<Rightarrow> graph" where
  "addEdges graph [] = graph"
| "addEdges graph (r # rs) =
     (case destructure (split r) of
        (from, to) \<Rightarrow> addEdges (addEdge (addEdge graph from to) to from) rs)"

definition buildGraph :: "string list \<Rightarrow> graph" where
  "buildGraph edges = addEdges Map.empty edges"

definition roads :: "string list" where
  "roads =
    [''Alice's House-Bob's House'',   ''Alice's House-Cabin'',
     ''Alice's House-Post Office'',   ''Bob's House-Town Hall'',
     ''Daria's House-Ernie's House'', ''Daria's House-Town Hall'',
     ''Ernie's House-Grete's House'', ''Grete's House-Farm'',
     ''Grete's House-Shop'',          ''Marketplace-Farm'',
     ''Marketplace-Post Office'',     ''Marketplace-Shop'',
     ''Marketplace-Town Hall'',       ''Shop-Town Hall'']"

definition roadGraph :: graph where
  "roadGraph = buildGraph roads"

text \<open>The neighbour list read with a missing entry taken as empty (used in statements only).\<close>

definition neighbours :: "graph \<Rightarrow> string \<Rightarrow> location list" where
  "neighbours graph k = (case graph k of None \<Rightarrow> [] | Some ns \<Rightarrow> ns)"

section \<open>VillageState.move\<close>

text \<open>
  The method reads the global \<^verbatim>\<open>roadGraph\<close>; the model takes the graph as its first
  argument, so that the method of the source is \<open>move roadGraph\<close>. Calling
  \<^verbatim>\<open>includes\<close> on a missing property is a \<^verbatim>\<open>TypeError\<close>.
\<close>

definition move :: "graph \<Rightarrow> VillageState \<Rightarrow> location \<Rightarrow> error + VillageState" where
  "move graph this destination =
     (case graph (toKey (place this)) of
        None \<Rightarrow> Inl TypeError
      | Some ns \<Rightarrow>
          if destination \<notin> set ns then Inr this
          else
            let parcels =
              filter (\<lambda>p. parcel.place p \<noteq> address p)
                (map (\<lambda>p. if parcel.place p \<noteq> place this then p
                          else \<lparr>parcel.place = destination, address = address p\<rparr>)
                   (parcels this))
            in Inr \<lparr>place = destination, parcels = parcels\<rparr>)"

text \<open>A sequence of moves, stopping at the first exception.\<close>

fun moves :: "graph \<Rightarrow> VillageState \<Rightarrow> location list \<Rightarrow> error + VillageState" where
  "moves graph s [] = Inr s"
| "moves graph s (d # ds) =
     (case move graph s d of Inl e \<Rightarrow> Inl e | Inr s' \<Rightarrow> moves graph s' ds)"

text \<open>The words of the specification for a legal move, to compare with the code.\<close>

definition relocateTo :: "location \<Rightarrow> location \<Rightarrow> parcel \<Rightarrow> parcel" where
  "relocateTo here d p = (if parcel.place p = here then p\<lparr>parcel.place := d\<rparr> else p)"

definition delivered :: "parcel \<Rightarrow> bool" where
  "delivered p \<longleftrightarrow> parcel.place p = address p"

definition noSelfDelivered :: "VillageState \<Rightarrow> bool" where
  "noSelfDelivered s \<longleftrightarrow> list_all (\<lambda>p. parcel.place p \<noteq> address p) (parcels s)"

text \<open>The graph of the specification's examples.\<close>

definition abc :: graph where
  "abc = buildGraph [''A-B'', ''B-C'']"

section \<open>runRobot\<close>

text \<open>
  An action is the object a robot returns; a property that is not there reads as
  \<^verbatim>\<open>undefined\<close>, which is \<open>None\<close> for the memory.
\<close>

record 'm action =
  direction :: location
  memory :: "'m option"

text \<open>
  A robot is a JavaScript function called with the state and the memory. It may read
  and change state of its own that is not among its arguments (the generator behind
  \<^verbatim>\<open>Math.random\<close>, for one): the type variable \<open>'w\<close>. It may also end with an
  exception, or return a value without properties, and then the run ends with it. A
  call of the robot is taken to come back: a run that never ends is one of the loop.
\<close>

type_synonym ('w, 'm) robot =
  "VillageState \<Rightarrow> 'm option \<Rightarrow> 'w \<Rightarrow> error + ('m action \<times> 'w)"

text \<open>The lines written by \<^verbatim>\<open>console.log\<close>.\<close>

datatype event = Moved location | Done nat

text \<open>
  The loop has no bound, so it is a partial function: \<open>None\<close> is a run that never
  ends. A run that ends gives the lines written and either the exception that ended it
  or the final state of the robot's surroundings.
\<close>

partial_function (option) runRobot_loop ::
  "graph \<Rightarrow> ('w, 'm) robot \<Rightarrow> nat \<Rightarrow> VillageState \<Rightarrow> 'm option \<Rightarrow> 'w \<Rightarrow> event list
     \<Rightarrow> (event list \<times> (error + 'w)) option"
where
  "runRobot_loop graph robot turn state mem w out =
     (if parcels state = [] then Some (out @ [Done turn], Inr w)
      else
        (case robot state mem w of
           Inl e \<Rightarrow> Some (out, Inl e)
         | Inr (action, w') \<Rightarrow>
             (case move graph state (direction action) of
                Inl e \<Rightarrow> Some (out, Inl e)
              | Inr state' \<Rightarrow>
                  runRobot_loop graph robot (Suc turn) state' (action.memory action) w'
                    (out @ [Moved (direction action)]))))"

definition runRobot ::
  "graph \<Rightarrow> VillageState \<Rightarrow> ('w, 'm) robot \<Rightarrow> 'm option \<Rightarrow> 'w
     \<Rightarrow> (event list \<times> (error + 'w)) option" where
  "runRobot graph state robot mem w = runRobot_loop graph robot 0 state mem w []"

section \<open>randomPick and randomRobot\<close>





text \<open>
  A robot for the examples, of the route-following kind: its memory is the list of
  places still to visit; it proposes the first and keeps the rest.
\<close>

definition followRoute :: "(unit, location list) robot" where
  "followRoute state mem w =
     (case mem of
        Some (d # rest) \<Rightarrow> Inr (\<lparr>direction = d, memory = Some rest\<rparr>, w)
      | _ \<Rightarrow> Inl TypeError)"

section \<open>Notions used in the statements\<close>

text \<open>
  What one descriptor adds to the neighbour list stored under the property name \<open>k\<close>:
  the loop body calls \<^verbatim>\<open>addEdge(from, to)\<close> and then \<^verbatim>\<open>addEdge(to, from)\<close>.
\<close>

definition contribution :: "string \<Rightarrow> string \<Rightarrow> location list" where
  "contribution r k =
     (case destructure (split r) of
        (from, to) \<Rightarrow>
          (if toKey from = k then [to] else []) @ (if toKey to = k then [from] else []))"

text \<open>
  A robot together with a count of its invocations, kept beside the robot's own
  surroundings: every call that returns an action adds one.
\<close>

definition counted :: "('w, 'm) robot \<Rightarrow> ('w \<times> nat, 'm) robot" where
  "counted robot state mem wn =
     (case robot state mem (fst wn) of
        Inl e \<Rightarrow> Inl e
      | Inr (action, w') \<Rightarrow> Inr (action, (w', Suc (snd wn))))"

text \<open>The example of the source: a parcel at the post office for Alice's house.\<close>

definition first :: VillageState where
  "first = \<lparr>place = Str ''Post Office'',
            parcels = [\<lparr>parcel.place = Str ''Post Office'', address = Str ''Alice's House''\<rparr>]\<rparr>"

section \<open>Facts about buildGraph\<close>

lemma abc_A: "abc ''A'' = Some [Str ''B'']"
  by (simp add: abc_def buildGraph_def destructure_def addEdge_def)

lemma abc_B: "abc ''B'' = Some [Str ''A'', Str ''C'']"
  by (simp add: abc_def buildGraph_def destructure_def addEdge_def)

lemma abc_C: "abc ''C'' = Some [Str ''B'']"
  by (simp add: abc_def buildGraph_def destructure_def addEdge_def)

lemma abc_D: "abc ''D'' = None"
  by (simp add: abc_def buildGraph_def destructure_def addEdge_def)

lemma neighbours_addEdge:
  "neighbours (addEdge g f t) k = (if k = toKey f then neighbours g k @ [t] else neighbours g k)"
  by (simp add: neighbours_def addEdge_def split: option.splits)

text \<open>The loop only ever appends: the final list is the initial one followed by the
  contributions of the descriptors, in order.\<close>

lemma neighbours_addEdges:
  "neighbours (addEdges g rs) k = neighbours g k @ concat (map (\<lambda>r. contribution r k) rs)"
proof (induction rs arbitrary: g)
  case Nil
  then show ?case by simp
next
  case (Cons r rs)
  obtain f t where ft: "destructure (split r) = (f, t)"
    by (cases "destructure (split r)")
  show ?case
    by (simp add: ft Cons.IH neighbours_addEdge contribution_def)
qed

lemma neighbours_buildGraph:
  "neighbours (buildGraph edges) k = concat (map (\<lambda>r. contribution r k) edges)"
proof -
  have "neighbours Map.empty k = []"
    by (simp add: neighbours_def)
  then show ?thesis
    unfolding buildGraph_def neighbours_addEdges by simp
qed

lemma neighbours_member:
  "x \<in> set (neighbours g k) \<Longrightarrow> \<exists>ns. g k = Some ns \<and> x \<in> set ns"
  by (cases "g k") (simp_all add: neighbours_def)

lemma registered_both:
  assumes "d \<in> set edges" and "destructure (split d) = (f, t)"
  shows "t \<in> set (neighbours (buildGraph edges) (toKey f))"
    and "f \<in> set (neighbours (buildGraph edges) (toKey t))"
  using assms by (auto simp: neighbours_buildGraph contribution_def intro!: bexI [of _ d])

lemma split_nonempty: "split r \<noteq> []"
  by (induction r) (auto split: list.splits)

lemma destructure_first: "\<exists>f t. destructure (split r) = (Str f, t)"
  using split_nonempty [of r] by (cases "split r") (simp_all add: destructure_def)

text \<open>What one descriptor adds of \<open>b\<close> to the list of \<open>a\<close>.\<close>

lemma count_contribution:
  "count_list (contribution r a) (Str b) =
     (if destructure (split r) = (Str a, Str b) then 1 else 0)
   + (if destructure (split r) = (Str b, Str a) then 1 else 0)
   + (if a = ''undefined'' \<and> destructure (split r) = (Str b, Undefined) then 1 else 0)"
proof -
  from destructure_first obtain f t where ft: "destructure (split r) = (Str f, t)"
    by blast
  show ?thesis
  proof (cases t)
    case Undefined
    then show ?thesis
      unfolding contribution_def ft by (cases "f = a") auto
  next
    case (Str t')
    then show ?thesis
      unfolding contribution_def ft by (cases "f = a"; cases "t' = a") auto
  qed
qed

lemma count_concat:
  "count_list (concat xss) v = sum_list (map (\<lambda>xs. count_list xs v) xss)"
  by (induction xss) simp_all

lemma length_filter_sum:
  "length (filter P xs) = sum_list (map (\<lambda>x. if P x then 1 else 0) xs)"
  by (induction xs) simp_all

lemma length_filter_either:
  assumes "x \<noteq> y"
  shows "length (filter (\<lambda>d. f d = x \<or> f d = y) xs) =
         length (filter (\<lambda>d. f d = x) xs) + length (filter (\<lambda>d. f d = y) xs)"
  using assms by (induction xs) auto

lemma count_neighbours:
  "count_list (neighbours (buildGraph edges) a) (Str b) =
     length (filter (\<lambda>d. destructure (split d) = (Str a, Str b)) edges)
   + length (filter (\<lambda>d. destructure (split d) = (Str b, Str a)) edges)
   + (if a = ''undefined''
      then length (filter (\<lambda>d. destructure (split d) = (Str b, Undefined)) edges) else 0)"
proof -
  have "count_list (neighbours (buildGraph edges) a) (Str b) =
        sum_list (map (\<lambda>r. count_list (contribution r a) (Str b)) edges)"
    by (simp add: neighbours_buildGraph count_concat comp_def)
  also have "\<dots> =
       sum_list (map (\<lambda>r. if destructure (split r) = (Str a, Str b) then 1 else 0) edges)
     + sum_list (map (\<lambda>r. if destructure (split r) = (Str b, Str a) then 1 else 0) edges)
     + sum_list (map (\<lambda>r. if a = ''undefined'' \<and> destructure (split r) = (Str b, Undefined)
                            then 1 else 0) edges)"
    by (simp only: count_contribution sum_list_addf)
  also have "\<dots> =
       length (filter (\<lambda>d. destructure (split d) = (Str a, Str b)) edges)
     + length (filter (\<lambda>d. destructure (split d) = (Str b, Str a)) edges)
     + length (filter (\<lambda>d. a = ''undefined'' \<and> destructure (split d) = (Str b, Undefined)) edges)"
    by (simp only: length_filter_sum)
  finally show ?thesis
    by (cases "a = ''undefined''") simp_all
qed

lemma count_neighbours_pair:
  assumes "a \<noteq> b" and "a \<noteq> ''undefined''"
  shows "count_list (neighbours (buildGraph edges) a) (Str b) =
           length (filter (\<lambda>d. destructure (split d) = (Str a, Str b)
                              \<or> destructure (split d) = (Str b, Str a)) edges)"
proof -
  from assms(1) have "(Str a, Str b) \<noteq> (Str b, Str a)"
    by simp
  from length_filter_either [OF this, of "\<lambda>d. destructure (split d)" edges] assms(2)
  show ?thesis
    by (simp add: count_neighbours)
qed

text \<open>
  C5. Every descriptor of the list that consists of two components \<open>a\<close> and \<open>b\<close> has
  \<open>a\<close> in the neighbour list of \<open>b\<close> and \<open>b\<close> in the neighbour list of \<open>a\<close> in the graph
  that \<open>buildGraph\<close> returns.
\<close>

theorem buildGraph_symmetric:
  assumes "d \<in> set edges" and "split d = [a, b]"
  shows "(\<exists>ns. buildGraph edges b = Some ns \<and> Str a \<in> set ns)
       \<and> (\<exists>ns. buildGraph edges a = Some ns \<and> Str b \<in> set ns)"
proof -
  have "destructure (split d) = (Str a, Str b)"
    using assms(2) by (simp add: destructure_def)
  from registered_both [OF assms(1) this] show ?thesis
    by (simp add: neighbours_member)
qed

theorem buildGraph_symmetric_witness:
  "''B-C'' \<in> set [''A-B'', ''B-C''] \<and> split ''B-C'' = [''B'', ''C'']
   \<and> (\<exists>ns. buildGraph [''A-B'', ''B-C''] ''C'' = Some ns \<and> Str ''B'' \<in> set ns)
   \<and> (\<exists>ns. buildGraph [''A-B'', ''B-C''] ''B'' = Some ns \<and> Str ''C'' \<in> set ns)"
  using buildGraph_symmetric [of "''B-C''" "[''A-B'', ''B-C'']" "''B''" "''C''"]
  by simp

text \<open>
  C9. \<open>addEdge\<close> appends to the list that is there, and nothing is removed or merged:
  \<open>b\<close> occurs in the neighbour list of \<open>a\<close> once for every descriptor \<open>a-b\<close>, once for
  every descriptor \<open>b-a\<close> and, when \<open>a\<close> is the name \<^verbatim>\<open>"undefined"\<close>, once for every
  descriptor \<open>b\<close> without separator. Hence for two different locations, the number of
  times each occurs in the list of the other is the number of descriptors that name the
  two, in either order, as long as the list read is not that of the name
  \<^verbatim>\<open>"undefined"\<close>.
\<close>

theorem buildGraph_duplicates:
  "neighbours (addEdge g from to) (toKey from) = neighbours g (toKey from) @ [to]
   \<and> count_list (neighbours (buildGraph edges) a) (Str b) =
         length (filter (\<lambda>d. destructure (split d) = (Str a, Str b)) edges)
       + length (filter (\<lambda>d. destructure (split d) = (Str b, Str a)) edges)
       + (if a = ''undefined''
          then length (filter (\<lambda>d. destructure (split d) = (Str b, Undefined)) edges) else 0)
   \<and> (a \<noteq> b \<and> a \<noteq> ''undefined'' \<longrightarrow>
        count_list (neighbours (buildGraph edges) a) (Str b) =
          length (filter (\<lambda>d. destructure (split d) = (Str a, Str b)
                             \<or> destructure (split d) = (Str b, Str a)) edges))
   \<and> (a \<noteq> b \<and> b \<noteq> ''undefined'' \<longrightarrow>
        count_list (neighbours (buildGraph edges) b) (Str a) =
          length (filter (\<lambda>d. destructure (split d) = (Str a, Str b)
                             \<or> destructure (split d) = (Str b, Str a)) edges))"
proof (intro conjI impI)
  show "neighbours (addEdge g from to) (toKey from) = neighbours g (toKey from) @ [to]"
    by (simp add: neighbours_addEdge)
next
  show "count_list (neighbours (buildGraph edges) a) (Str b) =
         length (filter (\<lambda>d. destructure (split d) = (Str a, Str b)) edges)
       + length (filter (\<lambda>d. destructure (split d) = (Str b, Str a)) edges)
       + (if a = ''undefined''
          then length (filter (\<lambda>d. destructure (split d) = (Str b, Undefined)) edges) else 0)"
    by (rule count_neighbours)
next
  assume "a \<noteq> b \<and> a \<noteq> ''undefined''"
  then show "count_list (neighbours (buildGraph edges) a) (Str b) =
          length (filter (\<lambda>d. destructure (split d) = (Str a, Str b)
                             \<or> destructure (split d) = (Str b, Str a)) edges)"
    by (simp add: count_neighbours_pair)
next
  assume "a \<noteq> b \<and> b \<noteq> ''undefined''"
  then have "b \<noteq> a" and "b \<noteq> ''undefined''"
    by auto
  from count_neighbours_pair [OF this]
  have "count_list (neighbours (buildGraph edges) b) (Str a) =
          length (filter (\<lambda>d. destructure (split d) = (Str b, Str a)
                             \<or> destructure (split d) = (Str a, Str b)) edges)" .
  moreover have
    "(\<lambda>d. destructure (split d) = (Str b, Str a) \<or> destructure (split d) = (Str a, Str b))
   = (\<lambda>d. destructure (split d) = (Str a, Str b) \<or> destructure (split d) = (Str b, Str a))"
    by (rule ext) blast
  ultimately show "count_list (neighbours (buildGraph edges) b) (Str a) =
          length (filter (\<lambda>d. destructure (split d) = (Str a, Str b)
                             \<or> destructure (split d) = (Str b, Str a)) edges)"
    by simp
qed

theorem buildGraph_duplicates_witness:
  "''A'' \<noteq> ''B'' \<and> ''A'' \<noteq> ''undefined'' \<and> ''B'' \<noteq> ''undefined''
   \<and> count_list (neighbours (buildGraph [''A-B'', ''B-A'', ''C'', ''B-C'', ''A-B'', ''A-A'']) ''A'')
        (Str ''B'') = 3
   \<and> count_list (neighbours (buildGraph [''A-B'', ''B-A'', ''C'', ''B-C'', ''A-B'', ''A-A'']) ''B'')
        (Str ''A'') = 3"
  using buildGraph_duplicates
    [of _ _ _ "[''A-B'', ''B-A'', ''C'', ''B-C'', ''A-B'', ''A-A'']" "''A''" "''B''"]
  by (simp add: destructure_def)

theorem buildGraph_duplicates_counterexample:
  "buildGraph [''undefined-X'', ''Y'', ''X''] ''undefined'' = Some [Str ''X'', Str ''Y'', Str ''X'']
   \<and> count_list [Str ''X'', Str ''Y'', Str ''X''] (Str ''X'') = 2
   \<and> length (filter (\<lambda>d. destructure (split d) = (Str ''undefined'', Str ''X'')
                        \<or> destructure (split d) = (Str ''X'', Str ''undefined''))
         [''undefined-X'', ''Y'', ''X'']) = 1
   \<and> buildGraph [''A-A''] ''A'' = Some [Str ''A'', Str ''A'']
   \<and> count_list [Str ''A'', Str ''A''] (Str ''A'') = 2
   \<and> length (filter (\<lambda>d. destructure (split d) = (Str ''A'', Str ''A'')
                        \<or> destructure (split d) = (Str ''A'', Str ''A'')) [''A-A'']) = 1"
  by (simp add: buildGraph_def destructure_def addEdge_def)

lemma addEdges_cong:
  assumes "map (\<lambda>d. destructure (split d)) edges = map (\<lambda>d. destructure (split d)) edges'"
  shows "addEdges g edges = addEdges g edges'"
  using assms
proof (induction edges arbitrary: edges' g)
  case Nil
  then show ?case by simp
next
  case (Cons r rs)
  then obtain r' rs' where "edges' = r' # rs'"
    by (cases edges') auto
  with Cons show ?case
    by auto
qed

text \<open>
  C4. \<open>buildGraph\<close> has no failure: it returns a graph for every list of strings, and
  every descriptor of the list is absorbed. A descriptor without separator registers
  \<^verbatim>\<open>undefined\<close> as neighbour of its single component, and that component as
  neighbour under the property name \<^verbatim>\<open>"undefined"\<close>; a descriptor with more than two
  components registers its first two as an edge. What lies beyond the second component
  has no effect on the graph.
\<close>

theorem buildGraph_absorbs:
  assumes "d \<in> set edges"
  shows "(\<forall>c. split d = [c] \<longrightarrow>
            (\<exists>ns. buildGraph edges c = Some ns \<and> Undefined \<in> set ns)
          \<and> (\<exists>ns. buildGraph edges ''undefined'' = Some ns \<and> Str c \<in> set ns))
       \<and> (\<forall>a b rest. split d = a # b # rest \<longrightarrow>
            (\<exists>ns. buildGraph edges a = Some ns \<and> Str b \<in> set ns)
          \<and> (\<exists>ns. buildGraph edges b = Some ns \<and> Str a \<in> set ns))
       \<and> (\<forall>edges'. map (\<lambda>d. destructure (split d)) edges = map (\<lambda>d. destructure (split d)) edges'
            \<longrightarrow> buildGraph edges = buildGraph edges')"
proof (intro conjI allI impI)
  fix c assume "split d = [c]"
  then have "destructure (split d) = (Str c, Undefined)"
    by (simp add: destructure_def)
  from registered_both [OF assms this]
  show "\<exists>ns. buildGraph edges c = Some ns \<and> Undefined \<in> set ns"
    and "\<exists>ns. buildGraph edges ''undefined'' = Some ns \<and> Str c \<in> set ns"
    by (simp_all add: neighbours_member)
next
  fix a b rest assume "split d = a # b # rest"
  then have "destructure (split d) = (Str a, Str b)"
    by (simp add: destructure_def)
  from registered_both [OF assms this]
  show "\<exists>ns. buildGraph edges a = Some ns \<and> Str b \<in> set ns"
    and "\<exists>ns. buildGraph edges b = Some ns \<and> Str a \<in> set ns"
    by (simp_all add: neighbours_member)
next
  fix edges'
  assume "map (\<lambda>d. destructure (split d)) edges = map (\<lambda>d. destructure (split d)) edges'"
  then show "buildGraph edges = buildGraph edges'"
    unfolding buildGraph_def by (rule addEdges_cong)
qed

theorem buildGraph_absorbs_witness:
  "''A-B-C'' \<in> set [''D'', ''A-B-C'']
   \<and> split ''A-B-C'' = ''A'' # ''B'' # [''C'']
   \<and> (\<exists>ns. buildGraph [''D'', ''A-B-C''] ''A'' = Some ns \<and> Str ''B'' \<in> set ns)
   \<and> ''D'' \<in> set [''D'', ''A-B-C'']
   \<and> split ''D'' = [''D'']
   \<and> (\<exists>ns. buildGraph [''D'', ''A-B-C''] ''D'' = Some ns \<and> Undefined \<in> set ns)
   \<and> map (\<lambda>d. destructure (split d)) [''D'', ''A-B-C''] = map (\<lambda>d. destructure (split d)) [''D'', ''A-B'']
   \<and> buildGraph [''D'', ''A-B-C''] = buildGraph [''D'', ''A-B'']"
  using buildGraph_absorbs [of "''A-B-C''" "[''D'', ''A-B-C'']"]
    buildGraph_absorbs [of "''D''" "[''D'', ''A-B-C'']"]
  by (simp add: destructure_def)

theorem buildGraph_malformed_counterexample:
  "length (split ''C'') \<noteq> 2
   \<and> buildGraph [''A-B'', ''C''] ''A'' = Some [Str ''B'']
   \<and> buildGraph [''A-B'', ''C''] ''B'' = Some [Str ''A'']
   \<and> buildGraph [''A-B'', ''C''] ''C'' = Some [Undefined]
   \<and> buildGraph [''A-B'', ''C''] ''undefined'' = Some [Str ''C'']"
  by (simp add: buildGraph_def destructure_def addEdge_def)

section \<open>Facts about move\<close>

lemma relocate_eq:
  "(\<lambda>p. if parcel.place p \<noteq> here then p
        else \<lparr>parcel.place = d, address = address p\<rparr>) = relocateTo here d"
  by (rule ext) (simp add: relocateTo_def)

lemma move_legal:
  assumes "graph (toKey (place s)) = Some ns" and "d \<in> set ns"
  shows "move graph s d =
    Inr \<lparr>place = d,
         parcels = filter (\<lambda>p. \<not> delivered p) (map (relocateTo (place s) d) (parcels s))\<rparr>"
  using assms by (simp add: move_def relocate_eq delivered_def)

lemma move_preserves:
  assumes "move graph s d = Inr s'" and "noSelfDelivered s"
  shows "noSelfDelivered s'"
  using assms
  by (auto simp: move_def noSelfDelivered_def list_all_iff Let_def split: option.splits if_splits)

lemma count_filter_map:
  "count_list (filter P (map f xs)) q = (if P q then length (filter (\<lambda>p. f p = q) xs) else 0)"
  by (induction xs) auto

lemma length_filter_split:
  "length xs = length (filter (\<lambda>p. \<not> P p) (map f xs)) + length (filter (\<lambda>p. P (f p)) xs)"
  by (induction xs) auto

lemma roadGraph_PO: "roadGraph ''Post Office'' = Some [Str ''Alice's House'', Str ''Marketplace'']"
proof -
  have "neighbours roadGraph ''Post Office'' = [Str ''Alice's House'', Str ''Marketplace'']"
    unfolding roadGraph_def neighbours_buildGraph roads_def
    by (simp add: contribution_def destructure_def)
  then show ?thesis
    by (cases "roadGraph ''Post Office''") (simp_all add: neighbours_def)
qed

text \<open>The example run in the source: the parcel is delivered by the first move.\<close>

lemma worked_example:
  "move roadGraph first (Str ''Alice's House'') = Inr \<lparr>place = Str ''Alice's House'', parcels = []\<rparr>"
  by (simp add: move_def first_def roadGraph_PO)

text \<open>
  C1. When the current place has a neighbour list and the destination is not in it,
  \<open>move\<close> returns the state it was given, and no error.
\<close>

theorem move_illegal_noop:
  assumes "graph (toKey (place s)) = Some ns" and "d \<notin> set ns"
  shows "move graph s d = Inr s"
  using assms by (simp add: move_def)

theorem move_illegal_noop_witness:
  "abc (toKey (place \<lparr>place = Str ''A'', parcels = [\<lparr>parcel.place = Str ''A'', address = Str ''B''\<rparr>]\<rparr>))
     = Some [Str ''B'']
   \<and> Str ''C'' \<notin> set [Str ''B'']
   \<and> move abc \<lparr>place = Str ''A'', parcels = [\<lparr>parcel.place = Str ''A'', address = Str ''B''\<rparr>]\<rparr>
        (Str ''C'')
     = Inr \<lparr>place = Str ''A'', parcels = [\<lparr>parcel.place = Str ''A'', address = Str ''B''\<rparr>]\<rparr>"
  using move_illegal_noop
    [of abc "\<lparr>place = Str ''A'', parcels = [\<lparr>parcel.place = Str ''A'', address = Str ''B''\<rparr>]\<rparr>"
        "[Str ''B'']" "Str ''C''"]
  by (simp add: abc_A)

text \<open>
  C2. A move to a member of the current place's neighbour list returns a state at the
  destination whose parcels are the old ones, each relocated if it was at the old place,
  without those that are then at their address. Counting says that nothing else happens:
  a parcel occurs in the result as often as old parcels relocate to it, never if it is
  delivered, and the parcels that are gone are the delivered ones.
\<close>

theorem move_legal_parcels:
  assumes "graph (toKey (place s)) = Some ns" and "d \<in> set ns"
  shows "\<exists>s'. move graph s d = Inr s' \<and> place s' = d
     \<and> parcels s' = filter (\<lambda>p. \<not> delivered p) (map (relocateTo (place s) d) (parcels s))
     \<and> (\<forall>q. count_list (parcels s') q =
          (if delivered q then 0
           else length (filter (\<lambda>p. relocateTo (place s) d p = q) (parcels s))))
     \<and> length (parcels s) =
         length (parcels s') + length (filter (\<lambda>p. delivered (relocateTo (place s) d p)) (parcels s))"
  using assms move_legal [of graph s ns d]
    length_filter_split [of "parcels s" delivered "relocateTo (place s) d"]
  by (simp add: count_filter_map)

theorem move_legal_parcels_witness:
  "abc (toKey (place \<lparr>place = Str ''A'', parcels =
        [\<lparr>parcel.place = Str ''A'', address = Str ''C''\<rparr>,
         \<lparr>parcel.place = Str ''A'', address = Str ''B''\<rparr>,
         \<lparr>parcel.place = Str ''C'', address = Str ''A''\<rparr>]\<rparr>)) = Some [Str ''B'']
   \<and> Str ''B'' \<in> set [Str ''B'']
   \<and> move abc \<lparr>place = Str ''A'', parcels =
        [\<lparr>parcel.place = Str ''A'', address = Str ''C''\<rparr>,
         \<lparr>parcel.place = Str ''A'', address = Str ''B''\<rparr>,
         \<lparr>parcel.place = Str ''C'', address = Str ''A''\<rparr>]\<rparr> (Str ''B'')
     = Inr \<lparr>place = Str ''B'', parcels =
        [\<lparr>parcel.place = Str ''B'', address = Str ''C''\<rparr>,
         \<lparr>parcel.place = Str ''C'', address = Str ''A''\<rparr>]\<rparr>"
  using move_legal_parcels [of abc "\<lparr>place = Str ''A'', parcels =
        [\<lparr>parcel.place = Str ''A'', address = Str ''C''\<rparr>,
         \<lparr>parcel.place = Str ''A'', address = Str ''B''\<rparr>,
         \<lparr>parcel.place = Str ''C'', address = Str ''A''\<rparr>]\<rparr>" "[Str ''B'']" "Str ''B''"]
  by (auto simp: abc_A relocateTo_def delivered_def)

text \<open>
  C10. The parcels after a legal move are the relocated images of the surviving parcels,
  in the order of the parcels before it: the result is the relocated sequence with the
  delivered parcels deleted in place.
\<close>

theorem move_keeps_order:
  assumes "graph (toKey (place s)) = Some ns" and "d \<in> set ns"
  shows "\<exists>s'. move graph s d = Inr s'
     \<and> subseq (parcels s') (map (relocateTo (place s) d) (parcels s))
     \<and> parcels s' = map (relocateTo (place s) d)
          (filter (\<lambda>p. \<not> delivered (relocateTo (place s) d p)) (parcels s))"
proof -
  let ?f = "relocateTo (place s) d"
  have "subseq (filter (\<lambda>p. \<not> delivered p) (map ?f (parcels s))) (map ?f (parcels s))"
    by (rule subseq_filter_left)
  moreover have "filter (\<lambda>p. \<not> delivered p) (map ?f (parcels s)) =
      map ?f (filter (\<lambda>p. \<not> delivered (?f p)) (parcels s))"
    by (simp add: filter_map comp_def)
  ultimately show ?thesis
    using assms move_legal [of graph s ns d] by simp
qed

theorem move_keeps_order_witness:
  "abc (toKey (place \<lparr>place = Str ''B'', parcels =
        [\<lparr>parcel.place = Str ''B'', address = Str ''A''\<rparr>,
         \<lparr>parcel.place = Str ''A'', address = Str ''B''\<rparr>,
         \<lparr>parcel.place = Str ''B'', address = Str ''C''\<rparr>,
         \<lparr>parcel.place = Str ''C'', address = Str ''A''\<rparr>]\<rparr>)) = Some [Str ''A'', Str ''C'']
   \<and> Str ''C'' \<in> set [Str ''A'', Str ''C'']
   \<and> (\<exists>s'. move abc \<lparr>place = Str ''B'', parcels =
        [\<lparr>parcel.place = Str ''B'', address = Str ''A''\<rparr>,
         \<lparr>parcel.place = Str ''A'', address = Str ''B''\<rparr>,
         \<lparr>parcel.place = Str ''B'', address = Str ''C''\<rparr>,
         \<lparr>parcel.place = Str ''C'', address = Str ''A''\<rparr>]\<rparr> (Str ''C'') = Inr s'
      \<and> parcels s' =
        [\<lparr>parcel.place = Str ''C'', address = Str ''A''\<rparr>,
         \<lparr>parcel.place = Str ''A'', address = Str ''B''\<rparr>,
         \<lparr>parcel.place = Str ''C'', address = Str ''A''\<rparr>])"
  using move_keeps_order [of abc "\<lparr>place = Str ''B'', parcels =
        [\<lparr>parcel.place = Str ''B'', address = Str ''A''\<rparr>,
         \<lparr>parcel.place = Str ''A'', address = Str ''B''\<rparr>,
         \<lparr>parcel.place = Str ''B'', address = Str ''C''\<rparr>,
         \<lparr>parcel.place = Str ''C'', address = Str ''A''\<rparr>]\<rparr>" "[Str ''A'', Str ''C'']" "Str ''C''"]
  by (auto simp: abc_B relocateTo_def delivered_def)

text \<open>
  C8. A state reached by any sequence of moves from a state without a parcel at its own
  address has no such parcel either.
\<close>

theorem no_self_delivered_reachable:
  assumes "noSelfDelivered s0" and "moves graph s0 ds = Inr s"
  shows "noSelfDelivered s"
  using assms
proof (induction ds arbitrary: s0)
  case Nil
  then show ?case by simp
next
  case (Cons d ds)
  then show ?case
    by (auto split: sum.splits dest: move_preserves)
qed

theorem no_self_delivered_reachable_witness:
  "noSelfDelivered \<lparr>place = Str ''A'', parcels =
        [\<lparr>parcel.place = Str ''A'', address = Str ''B''\<rparr>,
         \<lparr>parcel.place = Str ''A'', address = Str ''C''\<rparr>]\<rparr>
   \<and> moves abc \<lparr>place = Str ''A'', parcels =
        [\<lparr>parcel.place = Str ''A'', address = Str ''B''\<rparr>,
         \<lparr>parcel.place = Str ''A'', address = Str ''C''\<rparr>]\<rparr> [Str ''B'', Str ''B'', Str ''A'']
     = Inr \<lparr>place = Str ''A'', parcels = [\<lparr>parcel.place = Str ''A'', address = Str ''C''\<rparr>]\<rparr>
   \<and> noSelfDelivered \<lparr>place = Str ''A'', parcels = [\<lparr>parcel.place = Str ''A'', address = Str ''C''\<rparr>]\<rparr>"
  using no_self_delivered_reachable [of "\<lparr>place = Str ''A'', parcels =
        [\<lparr>parcel.place = Str ''A'', address = Str ''B''\<rparr>,
         \<lparr>parcel.place = Str ''A'', address = Str ''C''\<rparr>]\<rparr>" abc "[Str ''B'', Str ''B'', Str ''A'']"
      "\<lparr>place = Str ''A'', parcels = [\<lparr>parcel.place = Str ''A'', address = Str ''C''\<rparr>]\<rparr>"]
  by (simp add: noSelfDelivered_def move_def abc_A abc_B)

text \<open>
  C3. When the current place has no entry in the graph, \<open>move\<close> does not return a
  state: the call of \<^verbatim>\<open>includes\<close> on the missing neighbour list raises a
  \<^verbatim>\<open>TypeError\<close>, whatever the destination.
\<close>

theorem move_missing_place:
  assumes "graph (toKey (place s)) = None"
  shows "move graph s d = Inl TypeError"
  using assms by (simp add: move_def)

theorem move_missing_place_witness:
  "abc (toKey (place \<lparr>place = Str ''Farm'', parcels = []\<rparr>)) = None
   \<and> move abc \<lparr>place = Str ''Farm'', parcels = []\<rparr> (Str ''A'') = Inl TypeError"
  using move_missing_place [of abc "\<lparr>place = Str ''Farm'', parcels = []\<rparr>" "Str ''A''"]
  by (simp add: abc_def buildGraph_def destructure_def addEdge_def)

theorem move_missing_place_counterexample:
  "abc (toKey (Str ''D'')) = None
   \<and> move abc \<lparr>place = Str ''D'', parcels = [\<lparr>parcel.place = Str ''D'', address = Str ''A''\<rparr>]\<rparr> (Str ''A'')
       \<noteq> Inr \<lparr>place = Str ''D'', parcels = [\<lparr>parcel.place = Str ''D'', address = Str ''A''\<rparr>]\<rparr>
   \<and> move abc \<lparr>place = Str ''D'', parcels = [\<lparr>parcel.place = Str ''D'', address = Str ''A''\<rparr>]\<rparr> (Str ''A'')
       = Inl TypeError"
  by (simp add: move_def abc_D)

section \<open>Facts about runRobot\<close>

lemma loop_report:
  assumes "runRobot_loop graph robot turn state mem w out = Some res"
  shows "case snd res of
           Inl e \<Rightarrow> \<exists>ds. fst res = out @ map Moved ds
         | Inr w' \<Rightarrow> \<exists>ds sf. fst res = out @ map Moved ds @ [Done (turn + length ds)]
               \<and> moves graph state ds = Inr sf \<and> parcels sf = []
               \<and> (\<forall>k<length ds. \<forall>sk. moves graph state (take k ds) = Inr sk \<longrightarrow> parcels sk \<noteq> [])"
  using assms
proof (induction graph robot turn state mem w out res rule: runRobot_loop.raw_induct [rotated 1, consumes 1])
  case (1 loop graph robot turn state mem w out res)
  show ?case
  proof (cases "parcels state = []")
    case True
    with 1(2) have "res = (out @ [Done turn], Inr w)"
      by simp
    with True show ?thesis
      by (simp add: exI [of _ "[]"])
  next
    case False
    have stop: ?thesis if "res = (out, Inl e)" for e
      using that by (simp add: exI [of _ "[]"])
    show ?thesis
    proof (cases "robot state mem w")
      case (Inl e)
      with 1(2) False have "res = (out, Inl e)"
        by simp
      then show ?thesis by (rule stop)
    next
      case (Inr aw)
      obtain action w' where aw: "aw = (action, w')"
        by (cases aw)
      show ?thesis
      proof (cases "move graph state (direction action)")
        case (Inl e)
        with 1(2) False Inr aw have "res = (out, Inl e)"
          by simp
        then show ?thesis by (rule stop)
      next
        case moved: (Inr state')
        with 1(2) False Inr aw
        have run: "loop graph robot (Suc turn) state' (memory action) w'
                     (out @ [Moved (direction action)]) = Some res"
          by simp
        note IH = 1(1) [OF run]
        let ?ds = "\<lambda>ds. direction action # ds"
        show ?thesis
        proof (cases "snd res")
          case (Inl e)
          with IH obtain ds where "fst res = (out @ [Moved (direction action)]) @ map Moved ds"
            by auto
          then have "fst res = out @ map Moved (?ds ds)"
            by simp
          then have "\<exists>ds. fst res = out @ map Moved ds" ..
          with Inl show ?thesis
            by simp
        next
          case (Inr w'')
          with IH obtain ds sf where
            out: "fst res = (out @ [Moved (direction action)]) @ map Moved ds
                     @ [Done (Suc turn + length ds)]"
            and fin: "moves graph state' ds = Inr sf" "parcels sf = []"
            and before: "\<forall>k<length ds. \<forall>sk. moves graph state' (take k ds) = Inr sk
                           \<longrightarrow> parcels sk \<noteq> []"
            by auto
          have a: "fst res = out @ map Moved (?ds ds) @ [Done (turn + length (?ds ds))]"
            using out by simp
          have b: "moves graph state (?ds ds) = Inr sf"
            using fin(1) moved by simp
          have c: "parcels sk \<noteq> []"
            if "k < length (?ds ds)" and "moves graph state (take k (?ds ds)) = Inr sk" for k sk
          proof (cases k)
            case 0
            with that False show ?thesis by simp
          next
            case (Suc j)
            with that moved have "j < length ds" "moves graph state' (take j ds) = Inr sk"
              by simp_all
            with before show ?thesis by blast
          qed
          have "\<exists>ds sf. fst res = out @ map Moved ds @ [Done (turn + length ds)]
               \<and> moves graph state ds = Inr sf \<and> parcels sf = []
               \<and> (\<forall>k<length ds. \<forall>sk. moves graph state (take k ds) = Inr sk \<longrightarrow> parcels sk \<noteq> [])"
            using a b c fin(2) by blast
          with Inr show ?thesis
            by simp
        qed
      qed
    qed
  qed
qed

lemma loop_counted:
  assumes "runRobot_loop graph robot turn state mem wn out = Some res"
  shows "robot = counted r \<longrightarrow>
     (case snd res of
        Inl e \<Rightarrow> True
      | Inr wn' \<Rightarrow> \<exists>pre. fst res = pre @ [Done (turn + (snd wn' - snd wn))] \<and> snd wn \<le> snd wn')"
  using assms
proof (induction graph robot turn state mem wn out res rule: runRobot_loop.raw_induct [rotated 1, consumes 1])
  case (1 loop graph robot turn state mem wn out res)
  show ?case
  proof
    assume r: "robot = counted r"
    show "case snd res of
        Inl e \<Rightarrow> True
      | Inr wn' \<Rightarrow> \<exists>pre. fst res = pre @ [Done (turn + (snd wn' - snd wn))] \<and> snd wn \<le> snd wn'"
    proof (cases "parcels state = []")
      case True
      with 1(2) have "res = (out @ [Done turn], Inr wn)"
        by simp
      then show ?thesis
        by simp
    next
      case False
      show ?thesis
      proof (cases "robot state mem wn")
        case (Inl e)
        with 1(2) False have "res = (out, Inl e)"
          by simp
        then show ?thesis by simp
      next
        case (Inr aw)
        obtain action wn1 where aw: "aw = (action, wn1)"
          by (cases aw)
        from Inr aw r have step: "snd wn1 = Suc (snd wn)"
          by (auto simp: counted_def split: sum.splits prod.splits)
        show ?thesis
        proof (cases "move graph state (direction action)")
          case (Inl e)
          with 1(2) False Inr aw have "res = (out, Inl e)"
            by simp
          then show ?thesis by simp
        next
          case moved: (Inr state')
          with 1(2) False Inr aw
          have run: "loop graph robot (Suc turn) state' (memory action) wn1
                       (out @ [Moved (direction action)]) = Some res"
            by simp
          from 1(1) [OF run] r
          have IH: "case snd res of
              Inl e \<Rightarrow> True
            | Inr wn' \<Rightarrow> \<exists>pre. fst res = pre @ [Done (Suc turn + (snd wn' - snd wn1))]
                 \<and> snd wn1 \<le> snd wn'"
            by simp
          show ?thesis
          proof (cases "snd res")
            case (Inl e)
            then show ?thesis by simp
          next
            case (Inr wn')
            with IH obtain pre where
              "fst res = pre @ [Done (Suc turn + (snd wn' - snd wn1))]" "snd wn1 \<le> snd wn'"
              by auto
            with step have "fst res = pre @ [Done (turn + (snd wn' - snd wn))]" "snd wn \<le> snd wn'"
              by simp_all
            with Inr show ?thesis
              by simp
          qed
        qed
      qed
    qed
  qed
qed

text \<open>
  C6. A run from a state without parcels writes \<^verbatim>\<open>Done in 0 turns\<close> and returns
  with the robot's surroundings untouched, whatever the robot. A run that returns has
  written one line per move and then the number of those moves; the moves lead from the
  initial state to a state without parcels, and no state before had none. With the
  robot's invocations counted, the number reported is the number of invocations.
\<close>

theorem runRobot_turn_count:
  "(parcels state = [] \<longrightarrow> runRobot graph state robot mem w = Some ([Done 0], Inr w))
   \<and> (\<forall>out w'. runRobot graph state robot mem w = Some (out, Inr w') \<longrightarrow>
        (\<exists>ds sf. out = map Moved ds @ [Done (length ds)]
           \<and> moves graph state ds = Inr sf \<and> parcels sf = []
           \<and> (\<forall>k<length ds. \<forall>sk. moves graph state (take k ds) = Inr sk \<longrightarrow> parcels sk \<noteq> [])))
   \<and> (parcels state = [] \<longrightarrow>
        runRobot graph state (counted robot) mem (w, 0) = Some ([Done 0], Inr (w, 0)))
   \<and> (\<forall>out w' n. runRobot graph state (counted robot) mem (w, 0) = Some (out, Inr (w', n)) \<longrightarrow>
        (\<exists>ds. out = map Moved ds @ [Done n] \<and> length ds = n))"
proof (intro conjI allI impI)
  assume "parcels state = []"
  then show "runRobot graph state robot mem w = Some ([Done 0], Inr w)"
    by (simp add: runRobot_def runRobot_loop.simps [of graph robot 0 state])
next
  assume "parcels state = []"
  then show "runRobot graph state (counted robot) mem (w, 0) = Some ([Done 0], Inr (w, 0))"
    by (simp add: runRobot_def runRobot_loop.simps [of graph "counted robot" 0 state])
next
  fix out w'
  assume "runRobot graph state robot mem w = Some (out, Inr w')"
  then have "runRobot_loop graph robot 0 state mem w [] = Some (out, Inr w')"
    by (simp add: runRobot_def)
  from loop_report [OF this]
  show "\<exists>ds sf. out = map Moved ds @ [Done (length ds)]
           \<and> moves graph state ds = Inr sf \<and> parcels sf = []
           \<and> (\<forall>k<length ds. \<forall>sk. moves graph state (take k ds) = Inr sk \<longrightarrow> parcels sk \<noteq> [])"
    by simp
next
  fix out w' n
  assume "runRobot graph state (counted robot) mem (w, 0) = Some (out, Inr (w', n))"
  then have run: "runRobot_loop graph (counted robot) 0 state mem (w, 0) [] = Some (out, Inr (w', n))"
    by (simp add: runRobot_def)
  from loop_report [OF run] obtain ds where ds: "out = map Moved ds @ [Done (length ds)]"
    by auto
  from loop_counted [OF run, of robot] obtain pre where "out = pre @ [Done n]"
    by auto
  with ds have "length ds = n"
    by simp
  with ds show "\<exists>ds. out = map Moved ds @ [Done n] \<and> length ds = n"
    by blast
qed

theorem runRobot_turn_count_witness:
  "parcels \<lparr>place = Str ''A'', parcels = []\<rparr> = []
   \<and> runRobot abc \<lparr>place = Str ''A'', parcels = []\<rparr> followRoute None () = Some ([Done 0], Inr ())
   \<and> runRobot abc \<lparr>place = Str ''A'', parcels = []\<rparr> (counted followRoute) None ((), 0)
       = Some ([Done 0], Inr ((), 0))
   \<and> runRobot abc \<lparr>place = Str ''A'', parcels = [\<lparr>parcel.place = Str ''A'', address = Str ''C''\<rparr>]\<rparr>
        followRoute (Some [Str ''B'', Str ''C'']) ()
       = Some ([Moved (Str ''B''), Moved (Str ''C''), Done 2], Inr ())
   \<and> (\<exists>ds sf. [Moved (Str ''B''), Moved (Str ''C''), Done 2] = map Moved ds @ [Done (length ds)]
        \<and> moves abc \<lparr>place = Str ''A'', parcels = [\<lparr>parcel.place = Str ''A'', address = Str ''C''\<rparr>]\<rparr> ds
            = Inr sf \<and> parcels sf = [])
   \<and> runRobot abc \<lparr>place = Str ''A'', parcels = [\<lparr>parcel.place = Str ''A'', address = Str ''C''\<rparr>]\<rparr>
        (counted followRoute) (Some [Str ''B'', Str ''C'']) ((), 0)
       = Some ([Moved (Str ''B''), Moved (Str ''C''), Done 2], Inr ((), 2))
   \<and> (\<exists>ds. [Moved (Str ''B''), Moved (Str ''C''), Done 2] = map Moved ds @ [Done 2] \<and> length ds = 2)"
proof -
  let ?s0 = "\<lparr>place = Str ''A'', parcels = []\<rparr>"
  let ?s1 = "\<lparr>place = Str ''A'', parcels = [\<lparr>parcel.place = Str ''A'', address = Str ''C''\<rparr>]\<rparr>"
  let ?route = "Some [Str ''B'', Str ''C'']"
  let ?out = "[Moved (Str ''B''), Moved (Str ''C''), Done 2]"
  have e1: "runRobot abc ?s1 followRoute ?route () = Some (?out, Inr ())"
    by (simp add: runRobot_def runRobot_loop.simps followRoute_def move_def abc_A abc_B)
  have e2: "runRobot abc ?s1 (counted followRoute) ?route ((), 0) = Some (?out, Inr ((), 2))"
    by (simp add: runRobot_def runRobot_loop.simps counted_def followRoute_def move_def abc_A abc_B)
  have a: "runRobot abc ?s0 followRoute None () = Some ([Done 0], Inr ())"
    using runRobot_turn_count [where state = ?s0 and graph = abc and robot = followRoute
        and mem = None and w = "()"]
    by simp
  have b: "\<exists>ds sf. ?out = map Moved ds @ [Done (length ds)]
        \<and> moves abc ?s1 ds = Inr sf \<and> parcels sf = []"
    using runRobot_turn_count [where state = ?s1 and graph = abc and robot = followRoute
        and mem = ?route and w = "()"] e1
    by blast
  have c: "\<exists>ds. ?out = map Moved ds @ [Done 2] \<and> length ds = 2"
    using runRobot_turn_count [where state = ?s1 and graph = abc and robot = followRoute
        and mem = ?route and w = "()"] e2
    by blast
  have d: "runRobot abc ?s0 (counted followRoute) None ((), 0) = Some ([Done 0], Inr ((), 0))"
    using runRobot_turn_count [where state = ?s0 and graph = abc and robot = followRoute
        and mem = None and w = "()"]
    by simp
  from a b c d e1 e2 show ?thesis
    by simp
qed

section \<open>Facts about randomRobot\<close>





end
